theory Spec2Isabelle
  imports Main
begin

section \<open>Documents and collections\<close>

text \<open>
  The four Mongoose models of the service. An ObjectId is a natural number; a
  collection is the list of its documents in insertion order. Timestamps and the
  profile attributes of an account are not modelled: no handler below branches on them.
  A JavaScript string is a list of 8-bit characters (one per code unit).
\<close>

type_synonym objectId = nat

text \<open>
  Modelled from the spec: the Account schema (\<^verbatim>\<open>models/User\<close>), of which the
  controllers read and write \<^verbatim>\<open>_id\<close>, \<^verbatim>\<open>username\<close>, \<^verbatim>\<open>followers\<close> and
  \<^verbatim>\<open>following\<close>: identity plus two collections of account references.
\<close>

record user_doc =
  user_id :: objectId
  username :: string
  followers :: "objectId list"
  following :: "objectId list"

text \<open>\<^verbatim>\<open>tweetSchema\<close> of \<^verbatim>\<open>models/Tweet.js\<close>.\<close>

record tweet_doc =
  tweet_id :: objectId
  tweet_text :: string
  author :: objectId
  imageUrl :: "string option"
  likes :: "objectId list"
  retweets :: "objectId list"
  replies :: "objectId list"
  parentTweet :: "objectId option"
  isRetweet :: bool
  isReply :: bool
  originalTweet :: "objectId option"
  hashtags :: "string list"
  mentions :: "objectId list"

datatype kind = Like | Retweet | Follow | Reply | Mention

text \<open>\<^verbatim>\<open>notificationSchema\<close>.\<close>

record notification_doc =
  notification_id :: objectId
  recipient :: objectId
  sender :: objectId
  ntype :: kind
  tweet :: "objectId option"
  read :: bool

text \<open>
  \<^verbatim>\<open>trendingSchema\<close> of \<^verbatim>\<open>models/Trending.js\<close>. The \<^verbatim>\<open>category\<close> field is only
  ever filled by its schema default and is left out.
\<close>

record trending_doc =
  trending_id :: objectId
  tag :: string
  count :: int
  tweets :: "objectId list"

text \<open>
  The database. \<open>nextId\<close> stands for the ObjectId generator: every created document
  takes the current value, and the counter moves on.
\<close>

record store =
  Users :: "user_doc list"
  Tweets :: "tweet_doc list"
  Notifications :: "notification_doc list"
  Trendings :: "trending_doc list"
  nextId :: objectId

section \<open>Errors and responses\<close>

text \<open>
  Every handler body is wrapped in \<^verbatim>\<open>try { ... } catch (error) { next(error) }\<close>. A
  handler therefore ends either with a response it sends itself (\<open>Res\<close>) or by
  handing a thrown error to the error middleware (\<open>Next\<close>).
\<close>

datatype error =
    ValidationError string
  | DuplicateKeyError string
  | JsonWebTokenError
  | TokenExpiredError
  | StatusError nat
  | TypeError
  | DocumentNotFoundError
  | ServiceError

datatype body =
    Message string
  | Toggled string nat bool
  | TweetJson objectId string objectId "string option"

datatype outcome = Res nat body | Next error



text \<open>
  The calls that leave the process and may reject: the image service and the writes of
  the derived collections. Each predicate says for which argument the call throws.
\<close>

record env =
  uploadFails :: "string \<Rightarrow> bool"
  secure_url :: "string \<Rightarrow> string"
  destroyFails :: "string \<Rightarrow> bool"
  notificationFails :: "notification_doc \<Rightarrow> bool"
  trendingFails :: "string \<Rightarrow> bool"

section \<open>Strings\<close>

text \<open>\<^verbatim>\<open>\w\<close> of a JavaScript regular expression: \<^verbatim>\<open>[A-Za-z0-9_]\<close>.\<close>

definition isWord :: "char \<Rightarrow> bool" where
  "isWord c = (let n = (of_char c :: nat) in
     (48 \<le> n \<and> n \<le> 57) \<or> (65 \<le> n \<and> n \<le> 90) \<or> n = 95 \<or> (97 \<le> n \<and> n \<le> 122))"

text \<open>
  The loop \<^verbatim>\<open>while ((match = re.exec(s)) !== null) out.push(match[1])\<close> for the
  global regular expression made of the character \<open>c\<close> followed by \<^verbatim>\<open>(\w+)\<close>.
\<close>

function matchAll :: "char \<Rightarrow> string \<Rightarrow> string list" where
  "matchAll c [] = []"
| "matchAll c (x # xs) =
     (if x = c \<and> takeWhile isWord xs \<noteq> []
      then takeWhile isWord xs # matchAll c (dropWhile isWord xs)
      else matchAll c xs)"
  by pat_completeness auto
termination
  by (relation "measure (\<lambda>(c, s). length s)")
     (auto simp: length_dropWhile_le le_imp_less_Suc)

text \<open>\<^verbatim>\<open>String.prototype.toLowerCase\<close> on 8-bit code units.\<close>

definition lowerChar :: "char \<Rightarrow> char" where
  "lowerChar c = (let n = (of_char c :: nat) in
     if (65 \<le> n \<and> n \<le> 90) \<or> (192 \<le> n \<and> n \<le> 222 \<and> n \<noteq> 215)
     then char_of (n + 32) else c)"

definition toLowerCase :: "string \<Rightarrow> string" where
  "toLowerCase s = map lowerChar s"

text \<open>\<^verbatim>\<open>[...new Set(xs)]\<close>: the first occurrence of each element, in order.\<close>

definition uniq :: "'a list \<Rightarrow> 'a list" where
  "uniq xs = fold (\<lambda>x acc. if x \<in> set acc then acc else acc @ [x]) xs []"

text \<open>White space as \<^verbatim>\<open>String.prototype.trim\<close> sees it, on 8-bit code units.\<close>

definition isSpace :: "char \<Rightarrow> bool" where
  "isSpace c = (let n = (of_char c :: nat) in (9 \<le> n \<and> n \<le> 13) \<or> n = 32 \<or> n = 160)"

definition trim :: "string \<Rightarrow> string" where
  "trim s = rev (dropWhile isSpace (rev (dropWhile isSpace s)))"

text \<open>JavaScript truthiness of a value that is \<^verbatim>\<open>undefined\<close> or a string.\<close>

fun truthy :: "string option \<Rightarrow> bool" where
  "truthy None = False"
| "truthy (Some s) = (s \<noteq> [])"

text \<open>The pre-save hook of \<^verbatim>\<open>tweetSchema\<close>.\<close>

definition extractHashtags :: "string \<Rightarrow> string list" where
  "extractHashtags s = uniq (map toLowerCase (matchAll (CHR ''#'') s))"

definition preSave :: "tweet_doc \<Rightarrow> tweet_doc" where
  "preSave t = t\<lparr>hashtags := extractHashtags (tweet_text t)\<rparr>"

section \<open>Database operations\<close>

text \<open>\<^verbatim>\<open>updateOne\<close> and \<^verbatim>\<open>deleteOne\<close>: the first matching document, when there is one.\<close>

fun updateFirst :: "('a \<Rightarrow> bool) \<Rightarrow> ('a \<Rightarrow> 'a) \<Rightarrow> 'a list \<Rightarrow> 'a list" where
  "updateFirst p f [] = []"
| "updateFirst p f (x # xs) = (if p x then f x # xs else x # updateFirst p f xs)"

fun deleteFirst :: "('a \<Rightarrow> bool) \<Rightarrow> 'a list \<Rightarrow> 'a list" where
  "deleteFirst p [] = []"
| "deleteFirst p (x # xs) = (if p x then xs else x # deleteFirst p xs)"

definition findTweet :: "objectId \<Rightarrow> store \<Rightarrow> tweet_doc option" where
  "findTweet i s = find (\<lambda>t. tweet_id t = i) (Tweets s)"

definition findUser :: "objectId \<Rightarrow> store \<Rightarrow> user_doc option" where
  "findUser i s = find (\<lambda>u. user_id u = i) (Users s)"

text \<open>The schema defaults of a tweet built from its text and author.\<close>

definition newTweet :: "string \<Rightarrow> objectId \<Rightarrow> tweet_doc" where
  "newTweet txt a =
     \<lparr>tweet_id = 0, tweet_text = txt, author = a, imageUrl = None, likes = [],
      retweets = [], replies = [], parentTweet = None, isRetweet = False, isReply = False,
      originalTweet = None, hashtags = [], mentions = []\<rparr>"

text \<open>
  \<^verbatim>\<open>Tweet.create\<close>: the \<^verbatim>\<open>trim\<close> setter, then the validators of \<^verbatim>\<open>text\<close>
  (\<^verbatim>\<open>required\<close>, which Mongoose fails on the empty string, and \<^verbatim>\<open>maxlength\<close>), then
  the pre-save hook, then the insert.
\<close>

definition Tweet_create :: "tweet_doc \<Rightarrow> store \<Rightarrow> error + (tweet_doc \<times> store)" where
  "Tweet_create doc s =
     (let t = doc\<lparr>tweet_id := nextId s, tweet_text := trim (tweet_text doc)\<rparr> in
      if tweet_text t = [] then Inl (ValidationError ''Tweet text is required'')
      else if 280 < length (tweet_text t)
        then Inl (ValidationError ''Tweet cannot be more than 280 characters'')
      else Inr (preSave t, s\<lparr>Tweets := Tweets s @ [preSave t], nextId := Suc (nextId s)\<rparr>))"

text \<open>
  \<^verbatim>\<open>tweet.save()\<close> of a loaded document: the validators of \<^verbatim>\<open>text\<close> run again on
  the text as it is stored, then the hook, and the stored document is replaced; Mongoose
  throws when the document is no longer stored.
\<close>

definition Tweet_save :: "tweet_doc \<Rightarrow> store \<Rightarrow> error + store" where
  "Tweet_save doc s =
     (if tweet_text doc = [] then Inl (ValidationError ''Tweet text is required'')
      else if 280 < length (tweet_text doc)
        then Inl (ValidationError ''Tweet cannot be more than 280 characters'')
      else if list_ex (\<lambda>t. tweet_id t = tweet_id doc) (Tweets s)
      then Inr (s\<lparr>Tweets := updateFirst (\<lambda>t. tweet_id t = tweet_id doc) (\<lambda>t. preSave doc) (Tweets s)\<rparr>)
      else Inl DocumentNotFoundError)"

definition User_save :: "user_doc \<Rightarrow> store \<Rightarrow> store" where
  "User_save doc s =
     s\<lparr>Users := updateFirst (\<lambda>u. user_id u = user_id doc) (\<lambda>u. doc) (Users s)\<rparr>"

text \<open>\<^verbatim>\<open>Notification.create\<close>; the \<^verbatim>\<open>_id\<close> of the argument is ignored.\<close>

definition Notification_create :: "env \<Rightarrow> notification_doc \<Rightarrow> store \<Rightarrow> error + store" where
  "Notification_create env n s =
     (let d = n\<lparr>notification_id := nextId s\<rparr> in
      if notificationFails env d then Inl ServiceError
      else Inr (s\<lparr>Notifications := Notifications s @ [d], nextId := Suc (nextId s)\<rparr>))"

definition notify :: "objectId \<Rightarrow> objectId \<Rightarrow> kind \<Rightarrow> objectId option \<Rightarrow> notification_doc" where
  "notify r a k t =
     \<lparr>notification_id = 0, recipient = r, sender = a, ntype = k, tweet = t, read = False\<rparr>"

text \<open>
  \<^verbatim>\<open>Trending.findOneAndUpdate({ tag }, { $inc: { count: 1 }, $push: { tweets: id } },
  { upsert: true, new: true })\<close>.
\<close>

definition Trending_upsert :: "env \<Rightarrow> string \<Rightarrow> objectId \<Rightarrow> store \<Rightarrow> error + store" where
  "Trending_upsert env tg i s =
     (if trendingFails env tg then Inl ServiceError
      else if list_ex (\<lambda>d. tag d = tg) (Trendings s)
        then Inr (s\<lparr>Trendings := updateFirst (\<lambda>d. tag d = tg)
                      (\<lambda>d. d\<lparr>count := count d + 1, tweets := tweets d @ [i]\<rparr>) (Trendings s)\<rparr>)
      else Inr (s\<lparr>Trendings := Trendings s @
                      [\<lparr>trending_id = nextId s, tag = tg, count = 1, tweets = [i]\<rparr>],
                   nextId := Suc (nextId s)\<rparr>))"

text \<open>
  \<^verbatim>\<open>cloudinary.uploader.upload(req.file.path)\<close> when a file came with the request.
\<close>

fun uploadImage :: "env \<Rightarrow> string option \<Rightarrow> error + string option" where
  "uploadImage env None = Inr None"
| "uploadImage env (Some path) =
     (if uploadFails env path then Inl ServiceError else Inr (Some (secure_url env path)))"

text \<open>\<^verbatim>\<open>imageUrl.split('/').pop().split('.')[0]\<close>.\<close>

definition publicId :: "string \<Rightarrow> string" where
  "publicId url =
     takeWhile (\<lambda>c. c \<noteq> CHR ''.'') (rev (takeWhile (\<lambda>c. c \<noteq> CHR ''/'') (rev url)))"

section \<open>Follow and unfollow\<close>

text \<open>\<^verbatim>\<open>followUser\<close>; \<open>me\<close> is \<^verbatim>\<open>req.user._id\<close>, \<open>i\<close> is \<^verbatim>\<open>req.params.id\<close>.\<close>

definition followUser :: "env \<Rightarrow> objectId \<Rightarrow> objectId \<Rightarrow> store \<Rightarrow> store \<times> outcome" where
  "followUser env me i s =
     (case findUser i s of
        None \<Rightarrow> (s, Res 404 (Message ''User not found''))
      | Some userToFollow \<Rightarrow>
          if me = i then (s, Res 400 (Message ''You cannot follow yourself''))
          else if me \<in> set (followers userToFollow)
            then (s, Res 400 (Message ''You are already following this user''))
          else
            let s1 = User_save (userToFollow\<lparr>followers := followers userToFollow @ [me]\<rparr>) s in
            (case findUser me s1 of
               None \<Rightarrow> (s1, Next TypeError)
             | Some currentUser \<Rightarrow>
                 let s2 = User_save
                       (currentUser\<lparr>following := following currentUser @ [user_id userToFollow]\<rparr>) s1 in
                 (case Notification_create env (notify (user_id userToFollow) me Follow None) s2 of
                    Inl e \<Rightarrow> (s2, Next e)
                  | Inr s3 \<Rightarrow> (s3, Res 200 (Message ''User followed successfully'')))))"

text \<open>\<^verbatim>\<open>unfollowUser\<close>.\<close>

definition unfollowUser :: "objectId \<Rightarrow> objectId \<Rightarrow> store \<Rightarrow> store \<times> outcome" where
  "unfollowUser me i s =
     (case findUser i s of
        None \<Rightarrow> (s, Res 404 (Message ''User not found''))
      | Some userToUnfollow \<Rightarrow>
          if me = i then (s, Res 400 (Message ''You cannot unfollow yourself''))
          else if me \<notin> set (followers userToUnfollow)
            then (s, Res 400 (Message ''You are not following this user''))
          else
            let s1 = User_save
                  (userToUnfollow\<lparr>followers := filter (\<lambda>f. f \<noteq> me) (followers userToUnfollow)\<rparr>) s in
            (case findUser me s1 of
               None \<Rightarrow> (s1, Next TypeError)
             | Some currentUser \<Rightarrow>
                 (User_save (currentUser\<lparr>following :=
                      filter (\<lambda>f. f \<noteq> user_id userToUnfollow) (following currentUser)\<rparr>) s1,
                  Res 200 (Message ''User unfollowed successfully''))))"

section \<open>Like, retweet, reply\<close>

text \<open>The tail \<^verbatim>\<open>await tweet.save(); res.json({ message, n, flag })\<close> of both toggles.\<close>

definition saveAndRespond :: "tweet_doc \<Rightarrow> string \<Rightarrow> nat \<Rightarrow> bool \<Rightarrow> store \<Rightarrow> store \<times> outcome" where
  "saveAndRespond tw msg n b s =
     (case Tweet_save tw s of
        Inl e \<Rightarrow> (s, Next e)
      | Inr s' \<Rightarrow> (s', Res 200 (Toggled msg n b)))"

text \<open>\<^verbatim>\<open>likeTweet\<close>.\<close>

definition likeTweet :: "env \<Rightarrow> objectId \<Rightarrow> objectId \<Rightarrow> store \<Rightarrow> store \<times> outcome" where
  "likeTweet env me i s =
     (case findTweet i s of
        None \<Rightarrow> (s, Res 404 (Message ''Tweet not found''))
      | Some tw \<Rightarrow>
          if me \<in> set (likes tw) then
            (let tw' = tw\<lparr>likes := filter (\<lambda>u. u \<noteq> me) (likes tw)\<rparr> in
             saveAndRespond tw' ''Tweet unliked'' (length (likes tw')) False s)
          else
            (let tw' = tw\<lparr>likes := likes tw @ [me]\<rparr> in
             if author tw \<noteq> me then
               (case Notification_create env (notify (author tw) me Like (Some (tweet_id tw))) s of
                  Inl e \<Rightarrow> (s, Next e)
                | Inr s1 \<Rightarrow> saveAndRespond tw' ''Tweet liked'' (length (likes tw')) True s1)
             else saveAndRespond tw' ''Tweet liked'' (length (likes tw')) True s))"

text \<open>The filter of \<^verbatim>\<open>Tweet.deleteOne\<close> in the undo branch of \<^verbatim>\<open>retweetTweet\<close>.\<close>

definition isShellOf :: "objectId \<Rightarrow> objectId \<Rightarrow> tweet_doc \<Rightarrow> bool" where
  "isShellOf i me t = (isRetweet t \<and> originalTweet t = Some i \<and> author t = me)"

text \<open>\<^verbatim>\<open>retweetTweet\<close>.\<close>

definition retweetTweet :: "env \<Rightarrow> objectId \<Rightarrow> objectId \<Rightarrow> store \<Rightarrow> store \<times> outcome" where
  "retweetTweet env me i s =
     (case findTweet i s of
        None \<Rightarrow> (s, Res 404 (Message ''Tweet not found''))
      | Some tw \<Rightarrow>
          if me \<in> set (retweets tw) then
            (let tw' = tw\<lparr>retweets := filter (\<lambda>u. u \<noteq> me) (retweets tw)\<rparr>;
                 s1 = s\<lparr>Tweets := deleteFirst (isShellOf (tweet_id tw) me) (Tweets s)\<rparr>
             in saveAndRespond tw' ''Retweet undone'' (length (retweets tw')) False s1)
          else
            (let tw' = tw\<lparr>retweets := retweets tw @ [me]\<rparr> in
             case Tweet_create ((newTweet (tweet_text tw) me)
                     \<lparr>isRetweet := True, originalTweet := Some (tweet_id tw)\<rparr>) s of
               Inl e \<Rightarrow> (s, Next e)
             | Inr (shell, s1) \<Rightarrow>
                 if author tw \<noteq> me then
                   (case Notification_create env
                           (notify (author tw) me Retweet (Some (tweet_id tw))) s1 of
                      Inl e \<Rightarrow> (s1, Next e)
                    | Inr s2 \<Rightarrow>
                        saveAndRespond tw' ''Tweet retweeted'' (length (retweets tw')) True s2)
                 else saveAndRespond tw' ''Tweet retweeted'' (length (retweets tw')) True s1))"

text \<open>\<^verbatim>\<open>replyToTweet\<close>; \<open>txt\<close> is \<^verbatim>\<open>req.body.text\<close>.\<close>

definition replyToTweet ::
  "env \<Rightarrow> objectId \<Rightarrow> objectId \<Rightarrow> string option \<Rightarrow> store \<Rightarrow> store \<times> outcome" where
  "replyToTweet env me i txt s =
     (case (if truthy txt then txt else None) of
        None \<Rightarrow> (s, Res 400 (Message ''Reply text is required''))
      | Some t \<Rightarrow>
     (case findTweet i s of
        None \<Rightarrow> (s, Res 404 (Message ''Tweet not found''))
      | Some parent \<Rightarrow>
     (case Tweet_create ((newTweet t me)\<lparr>isReply := True, parentTweet := Some (tweet_id parent)\<rparr>) s of
        Inl e \<Rightarrow> (s, Next e)
      | Inr (replyTweet, s1) \<Rightarrow>
     (case Tweet_save (parent\<lparr>replies := replies parent @ [tweet_id replyTweet]\<rparr>) s1 of
        Inl e \<Rightarrow> (s1, Next e)
      | Inr s2 \<Rightarrow>
     (let populatedReply = findTweet (tweet_id replyTweet) s2 in
      case (if author parent \<noteq> me
            then Notification_create env (notify (author parent) me Reply (Some (tweet_id parent))) s2
            else Inr s2) of
        Inl e \<Rightarrow> (s2, Next e)
      | Inr s3 \<Rightarrow>
     (case populatedReply of
        None \<Rightarrow> (s3, Next TypeError)
      | Some p \<Rightarrow> (s3, Res 201 (TweetJson (tweet_id p) (tweet_text p) (author p) None))))))))"

section \<open>Creating and deleting a tweet\<close>

text \<open>
  The loop over \<^verbatim>\<open>tweet.hashtags\<close> in \<^verbatim>\<open>createTweet\<close>. An upsert that throws ends the
  handler; the upserts before it stay.
\<close>

fun processHashtags :: "env \<Rightarrow> objectId \<Rightarrow> string list \<Rightarrow> store \<Rightarrow> store \<times> error option" where
  "processHashtags env i [] s = (s, None)"
| "processHashtags env i (tg # tgs) s =
     (case Trending_upsert env tg i s of
        Inl e \<Rightarrow> (s, Some e)
      | Inr s' \<Rightarrow> processHashtags env i tgs s')"

text \<open>The loop over \<^verbatim>\<open>mentionedUsers\<close>.\<close>

fun processMentions ::
  "env \<Rightarrow> objectId \<Rightarrow> objectId \<Rightarrow> user_doc list \<Rightarrow> store \<Rightarrow> store \<times> error option" where
  "processMentions env me i [] s = (s, None)"
| "processMentions env me i (u # us) s =
     (if user_id u \<noteq> me then
        (case Notification_create env (notify (user_id u) me Mention (Some i)) s of
           Inl e \<Rightarrow> (s, Some e)
         | Inr s' \<Rightarrow> processMentions env me i us s')
      else processMentions env me i us s)"

text \<open>\<^verbatim>\<open>text || ''\<close>, and the string \<^verbatim>\<open>exec\<close> makes of its argument.\<close>

fun orEmpty :: "string option \<Rightarrow> string" where
  "orEmpty None = []"
| "orEmpty (Some t) = t"

fun toString :: "string option \<Rightarrow> string" where
  "toString None = ''undefined''"
| "toString (Some t) = t"

text \<open>
  \<^verbatim>\<open>createTweet\<close>; \<open>txt\<close> is \<^verbatim>\<open>req.body.text\<close>, \<open>file\<close> the path of \<^verbatim>\<open>req.file\<close>
  when the request carries an image.
\<close>

definition createTweet ::
  "env \<Rightarrow> objectId \<Rightarrow> string option \<Rightarrow> string option \<Rightarrow> store \<Rightarrow> store \<times> outcome" where
  "createTweet env me txt file s =
     (if \<not> truthy txt \<and> file = None
        then (s, Res 400 (Message ''Tweet text or image is required''))
      else
     (case uploadImage env file of
        Inl e \<Rightarrow> (s, Next e)
      | Inr img \<Rightarrow>
     (case Tweet_create ((newTweet (orEmpty txt) me)\<lparr>imageUrl := img\<rparr>) s of
        Inl e \<Rightarrow> (s, Next e)
      | Inr (tw, s1) \<Rightarrow>
     (let populatedTweet = findTweet (tweet_id tw) s1 in
      case processHashtags env (tweet_id tw) (hashtags tw) s1 of
        (s2, Some e) \<Rightarrow> (s2, Next e)
      | (s2, None) \<Rightarrow>
     (let mentionedUsernames = matchAll (CHR ''@'') (toString txt);
          mentionedUsers = filter (\<lambda>u. username u \<in> set mentionedUsernames) (Users s2)
      in
      case processMentions env me (tweet_id tw) mentionedUsers s2 of
        (s3, Some e) \<Rightarrow> (s3, Next e)
      | (s3, None) \<Rightarrow>
     (case populatedTweet of
        None \<Rightarrow> (s3, Next TypeError)
      | Some p \<Rightarrow>
          (s3, Res 201 (TweetJson (tweet_id p) (tweet_text p) (author p) (imageUrl p)))))))))"

text \<open>
  \<^verbatim>\<open>deleteTweet\<close>. The steps run in the order of the source: image, parent's
  replies, original's retweets, notifications, the tweet itself.
\<close>

definition deleteTweet :: "env \<Rightarrow> objectId \<Rightarrow> objectId \<Rightarrow> store \<Rightarrow> store \<times> outcome" where
  "deleteTweet env me i s =
     (case findTweet i s of
        None \<Rightarrow> (s, Res 404 (Message ''Tweet not found''))
      | Some tw \<Rightarrow>
          if author tw \<noteq> me
            then (s, Res 403 (Message ''Not authorized to delete this tweet''))
          else if truthy (imageUrl tw) \<and>
                  destroyFails env (''chirp-social/tweets/'' @ publicId (orEmpty (imageUrl tw)))
            then (s, Next ServiceError)
          else
            let s1 = (case parentTweet tw of
                        Some par \<Rightarrow>
                          if isReply tw
                          then s\<lparr>Tweets := updateFirst (\<lambda>t. tweet_id t = par)
                                   (\<lambda>t. t\<lparr>replies := removeAll (tweet_id tw) (replies t)\<rparr>) (Tweets s)\<rparr>
                          else s
                      | None \<Rightarrow> s);
                s2 = (case originalTweet tw of
                        Some orig \<Rightarrow>
                          if isRetweet tw
                          then s1\<lparr>Tweets := updateFirst (\<lambda>t. tweet_id t = orig)
                                   (\<lambda>t. t\<lparr>retweets := removeAll me (retweets t)\<rparr>) (Tweets s1)\<rparr>
                          else s1
                      | None \<Rightarrow> s1);
                s3 = s2\<lparr>Notifications :=
                          filter (\<lambda>n. tweet n \<noteq> Some (tweet_id tw)) (Notifications s2)\<rparr>;
                s4 = s3\<lparr>Tweets := deleteFirst (\<lambda>t. tweet_id t = tweet_id tw) (Tweets s3)\<rparr>
            in (s4, Res 200 (Message ''Tweet deleted successfully'')))"

section \<open>Observations and example runs\<close>


text \<open>An environment in which no outside call fails.\<close>

definition env0 :: env where
  "env0 = \<lparr>uploadFails = (\<lambda>p. False), secure_url = (\<lambda>p. ''https://img.example/'' @ p),
      destroyFails = (\<lambda>p. False), notificationFails = (\<lambda>n. False),
      trendingFails = (\<lambda>t. False)\<rparr>"

text \<open>Two accounts, alice (1) and bob (2), and one tweet (3) by alice.\<close>

definition st0 :: store where
  "st0 = \<lparr>Users = [\<lparr>user_id = 1, username = ''alice'', followers = [], following = []\<rparr>,
                  \<lparr>user_id = 2, username = ''bob'', followers = [], following = []\<rparr>],
          Tweets = [(newTweet ''hello'' 1)\<lparr>tweet_id := 3\<rparr>],
          Notifications = [], Trendings = [], nextId = 4\<rparr>"

text \<open>
  The store \<open>st0\<close> after bob (2) replied to tweet 3 with tweet 4 and alice liked the
  reply.
\<close>

definition stReply :: store where
  "stReply = \<lparr>Users = Users st0,
      Tweets = [(newTweet ''hello'' 1)\<lparr>tweet_id := 3, replies := [4]\<rparr>,
                (newTweet ''me too'' 2)
                  \<lparr>tweet_id := 4, likes := [1], isReply := True, parentTweet := Some 3\<rparr>],
      Notifications = [(notify 1 2 Reply (Some 3))\<lparr>notification_id := 5\<rparr>,
                       (notify 2 1 Like (Some 4))\<lparr>notification_id := 6\<rparr>],
      Trendings = [], nextId = 7\<rparr>"








section \<open>Deleting a tweet leaves the trending index alone\<close>

text \<open>
  C9. \<^verbatim>\<open>deleteTweet\<close> never writes the Trending collection: whatever the tweet, the
  actor and the outcome, every trending topic has after the call the count and the
  contributing tweets it had before, also for the tags of the deleted tweet.
\<close>

theorem deleteTweet_keeps_Trendings:
  "Trendings (fst (deleteTweet env me i s)) = Trendings s"
  by (simp add: deleteTweet_def Let_def split: option.splits)

section \<open>A reply needs a text\<close>

text \<open>
  C10. A reply request whose text is absent or empty is answered with status 400 and the
  message that the reply text is required; the store is returned as it was, so no tweet
  is created and the replies of the parent are unchanged.
\<close>

theorem replyToTweet_without_text:
  "replyToTweet env me i None s = (s, Res 400 (Message ''Reply text is required'')) \<and>
   replyToTweet env me i (Some []) s = (s, Res 400 (Message ''Reply text is required''))"
  by (simp add: replyToTweet_def)

section \<open>Lists of documents\<close>

lemma find_Some_holds: "find p xs = Some x \<Longrightarrow> p x"
  by (induction xs) (auto split: if_splits)




lemma find_updateFirst_same:
  "(\<And>x. p x \<Longrightarrow> p (f x)) \<Longrightarrow> find p (updateFirst p f xs) = map_option f (find p xs)"
  by (induction xs) auto

lemma find_updateFirst_other:
  "(\<And>x. p x \<Longrightarrow> \<not> q x \<and> \<not> q (f x)) \<Longrightarrow> find q (updateFirst p f xs) = find q xs"
  by (induction xs) auto

lemma findUser_id: "findUser i s = Some u \<Longrightarrow> user_id u = i"
  by (auto simp: findUser_def dest: find_Some_holds)

lemma findUser_save_same:
  "findUser (user_id d) (User_save d s) = map_option (\<lambda>u. d) (findUser (user_id d) s)"
  by (simp add: findUser_def User_save_def find_updateFirst_same)

lemma findUser_save_other:
  "i \<noteq> user_id d \<Longrightarrow> findUser i (User_save d s) = findUser i s"
  by (simp add: findUser_def User_save_def)
     (rule find_updateFirst_other, auto)

lemma Users_Notification_create:
  "Notification_create env n s = Inr s' \<Longrightarrow> Users s' = Users s"
  by (auto simp: Notification_create_def Let_def split: if_splits)

lemma findUser_Notification_create:
  "Notification_create env n s = Inr s' \<Longrightarrow> findUser i s' = findUser i s"
  by (simp add: findUser_def Users_Notification_create)

section \<open>An image without text\<close>

lemma trim_Nil: "trim [] = []"
  by (simp add: trim_def)

text \<open>
  C2. A request that carries an image and no text, or the empty text, passes the
  guard of \<^verbatim>\<open>createTweet\<close>, which then hands \<^verbatim>\<open>text || ''\<close> to \<^verbatim>\<open>Tweet.create\<close>; the
  \<^verbatim>\<open>required\<close> validator of the schema rejects the empty string. When the upload goes
  through, the handler ends with the validation error and the store is as before: no
  tweet is created.
\<close>

theorem createTweet_image_only:
  "createTweet env me None (Some path) s =
     (s, Next (if uploadFails env path then ServiceError
               else ValidationError ''Tweet text is required'')) \<and>
   createTweet env me (Some []) (Some path) s =
     (s, Next (if uploadFails env path then ServiceError
               else ValidationError ''Tweet text is required''))"
  by (simp add: createTweet_def Tweet_create_def newTweet_def trim_Nil Let_def)

section \<open>Hashtags are indexed once per tweet\<close>






section \<open>Follow and unfollow write both sides\<close>

lemma followUser_success:
  assumes "followUser env a b s = (s', Res 200 m)"
  shows "\<exists>ua ub. findUser a s' = Some ua \<and> findUser b s' = Some ub \<and>
           b \<in> set (following ua) \<and> a \<in> set (followers ub)"
proof -
  from assms obtain ub where ub: "findUser b s = Some ub"
    by (auto simp: followUser_def split: option.splits)
  have idb: "user_id ub = b" using ub by (rule findUser_id)
  from assms ub have ne: "a \<noteq> b" and nf: "a \<notin> set (followers ub)"
    by (auto simp: followUser_def split: if_splits)
  let ?ub = "ub\<lparr>followers := followers ub @ [a]\<rparr>"
  let ?s1 = "User_save ?ub s"
  from assms ub ne nf obtain ua where ua: "findUser a ?s1 = Some ua"
    by (auto simp: followUser_def Let_def split: option.splits)
  have ida: "user_id ua = a" using ua by (rule findUser_id)
  let ?ua = "ua\<lparr>following := following ua @ [b]\<rparr>"
  let ?s2 = "User_save ?ua ?s1"
  from assms ub ne nf ua idb
  have nc: "Notification_create env (notify b a Follow None) ?s2 = Inr s'"
    by (auto simp: followUser_def Let_def split: sum.splits)
  have "findUser a ?s2 = Some ?ua"
    using findUser_save_same[of ?ua ?s1] ua ida by simp
  moreover have "findUser b ?s1 = Some ?ub"
    using findUser_save_same[of ?ub s] ub idb by simp
  then have "findUser b ?s2 = Some ?ub"
    using findUser_save_other[of b ?ua ?s1] ne ida by simp
  ultimately show ?thesis
    using findUser_Notification_create[OF nc] by simp
qed

lemma unfollowUser_success:
  assumes "unfollowUser a b s = (s', Res 200 m)"
  shows "\<exists>ua ub. findUser a s' = Some ua \<and> findUser b s' = Some ub \<and>
           b \<notin> set (following ua) \<and> a \<notin> set (followers ub)"
proof -
  from assms obtain ub where ub: "findUser b s = Some ub"
    by (auto simp: unfollowUser_def split: option.splits)
  have idb: "user_id ub = b" using ub by (rule findUser_id)
  from assms ub have ne: "a \<noteq> b" and nf: "a \<in> set (followers ub)"
    by (auto simp: unfollowUser_def split: if_splits)
  let ?ub = "ub\<lparr>followers := filter (\<lambda>f. f \<noteq> a) (followers ub)\<rparr>"
  let ?s1 = "User_save ?ub s"
  from assms ub ne nf obtain ua where ua: "findUser a ?s1 = Some ua"
    by (auto simp: unfollowUser_def Let_def split: option.splits)
  have ida: "user_id ua = a" using ua by (rule findUser_id)
  let ?ua = "ua\<lparr>following := filter (\<lambda>f. f \<noteq> b) (following ua)\<rparr>"
  from assms ub ne nf ua idb
  have s': "s' = User_save ?ua ?s1"
    by (auto simp: unfollowUser_def Let_def)
  have "findUser a s' = Some ?ua"
    using findUser_save_same[of ?ua ?s1] ua ida s' by simp
  moreover have "findUser b ?s1 = Some ?ub"
    using findUser_save_same[of ?ub s] ub idb by simp
  then have "findUser b s' = Some ?ub"
    using findUser_save_other[of b ?ua ?s1] ne ida s' by simp
  ultimately show ?thesis by simp
qed

text \<open>
  C4. When \<^verbatim>\<open>followUser\<close> answers 200 for actor \<open>a\<close> and target \<open>b\<close>, the stored
  document of \<open>a\<close> lists \<open>b\<close> in \<^verbatim>\<open>following\<close> and the stored document of \<open>b\<close> lists
  \<open>a\<close> in \<^verbatim>\<open>followers\<close>. When \<^verbatim>\<open>unfollowUser\<close> answers 200, neither list holds the
  other account any more. (Both handlers refuse \<open>a = b\<close>, so a success means two
  distinct accounts.)
\<close>

theorem follow_unfollow_symmetry:
  "(followUser env a b s = (s', Res 200 m) \<longrightarrow>
      (\<exists>ua ub. findUser a s' = Some ua \<and> findUser b s' = Some ub \<and>
          b \<in> set (following ua) \<and> a \<in> set (followers ub))) \<and>
   (unfollowUser a b s = (s', Res 200 m) \<longrightarrow>
      (\<exists>ua ub. findUser a s' = Some ua \<and> findUser b s' = Some ub \<and>
          b \<notin> set (following ua) \<and> a \<notin> set (followers ub)))"
  using followUser_success unfollowUser_success by blast

theorem follow_unfollow_symmetry_witness:
  "followUser env0 1 2 st0 =
     (fst (followUser env0 1 2 st0), Res 200 (Message ''User followed successfully'')) \<and>
   (\<exists>ua ub. findUser 1 (fst (followUser env0 1 2 st0)) = Some ua \<and>
       findUser 2 (fst (followUser env0 1 2 st0)) = Some ub \<and>
       2 \<in> set (following ua) \<and> 1 \<in> set (followers ub)) \<and>
   unfollowUser 1 2 (fst (followUser env0 1 2 st0)) =
     (st0\<lparr>Notifications := [notify 2 1 Follow None\<lparr>notification_id := 4\<rparr>], nextId := 5\<rparr>,
      Res 200 (Message ''User unfollowed successfully'')) \<and>
   (\<exists>ua ub.
       findUser 1 (st0\<lparr>Notifications := [notify 2 1 Follow None\<lparr>notification_id := 4\<rparr>],
                       nextId := 5\<rparr>) = Some ua \<and>
       findUser 2 (st0\<lparr>Notifications := [notify 2 1 Follow None\<lparr>notification_id := 4\<rparr>],
                       nextId := 5\<rparr>) = Some ub \<and>
       2 \<notin> set (following ua) \<and> 1 \<notin> set (followers ub))"
proof -
  have f: "followUser env0 1 2 st0 =
     (fst (followUser env0 1 2 st0), Res 200 (Message ''User followed successfully''))"
    by (simp add: followUser_def findUser_def User_save_def Notification_create_def
        notify_def env0_def st0_def Let_def)
  have u: "unfollowUser 1 2 (fst (followUser env0 1 2 st0)) =
     (st0\<lparr>Notifications := [notify 2 1 Follow None\<lparr>notification_id := 4\<rparr>], nextId := 5\<rparr>,
      Res 200 (Message ''User unfollowed successfully''))"
    by (simp add: followUser_def unfollowUser_def findUser_def User_save_def
        Notification_create_def notify_def env0_def st0_def Let_def)
  from follow_unfollow_symmetry[of env0 1 2 st0, THEN conjunct1, rule_format, OF f]
       follow_unfollow_symmetry[of env0 1 2 "fst (followUser env0 1 2 st0)",
         THEN conjunct2, rule_format, OF u]
       f u
  show ?thesis by blast
qed

section \<open>Tweets in the store\<close>

lemma findTweet_id: "findTweet i s = Some t \<Longrightarrow> tweet_id t = i"
  by (auto simp: findTweet_def dest: find_Some_holds)








lemma Tweet_save_invalid:
  "tweet_text d = [] \<or> 280 < length (tweet_text d) \<Longrightarrow> \<exists>m. Tweet_save d s = Inl (ValidationError m)"
  by (auto simp: Tweet_save_def)

section \<open>Liking twice\<close>









section \<open>No notification to oneself\<close>

lemma Notifications_Tweet_save:
  "Tweet_save d s = Inr s' \<Longrightarrow> Notifications s' = Notifications s"
  by (auto simp: Tweet_save_def split: if_splits)

lemma Notifications_Tweet_create:
  "Tweet_create d s = Inr (t, s') \<Longrightarrow> Notifications s' = Notifications s"
  by (auto simp: Tweet_create_def Let_def split: if_splits)

lemma Notifications_Notification_create:
  "Notification_create env n s = Inr s' \<Longrightarrow>
     Notifications s' = Notifications s @ [n\<lparr>notification_id := nextId s\<rparr>]"
  by (auto simp: Notification_create_def Let_def split: if_splits)

lemma Notifications_saveAndRespond:
  "Notifications (fst (saveAndRespond tw msg k b s)) = Notifications s"
  by (auto simp: saveAndRespond_def dest: Notifications_Tweet_save split: sum.splits)

lemma likeTweet_notifications:
  "\<exists>new. Notifications (fst (likeTweet env me i s)) = Notifications s @ new \<and>
     list_all (\<lambda>n. sender n \<noteq> recipient n) new \<and>
     (case findTweet i s of None \<Rightarrow> True | Some tw \<Rightarrow> author tw = me \<longrightarrow> new = [])"
  by (auto simp: likeTweet_def Let_def Notifications_saveAndRespond notify_def
      dest: Notifications_Notification_create split: option.splits sum.splits)

lemma retweetTweet_notifications:
  "\<exists>new. Notifications (fst (retweetTweet env me i s)) = Notifications s @ new \<and>
     list_all (\<lambda>n. sender n \<noteq> recipient n) new \<and>
     (case findTweet i s of None \<Rightarrow> True | Some tw \<Rightarrow> author tw = me \<longrightarrow> new = [])"
  by (auto simp: retweetTweet_def Let_def Notifications_saveAndRespond notify_def
        Notification_create_def Tweet_create_def
      split: option.splits sum.splits if_splits)

lemma replyToTweet_notifications:
  "\<exists>new. Notifications (fst (replyToTweet env me i txt s)) = Notifications s @ new \<and>
     list_all (\<lambda>n. sender n \<noteq> recipient n) new \<and>
     (case findTweet i s of None \<Rightarrow> True | Some tw \<Rightarrow> author tw = me \<longrightarrow> new = [])"
  by (auto simp: replyToTweet_def Let_def notify_def
        Notification_create_def Tweet_create_def Tweet_save_def
      split: option.splits sum.splits if_splits)


text \<open>
  C7. Each of \<^verbatim>\<open>likeTweet\<close>, \<^verbatim>\<open>retweetTweet\<close> and \<^verbatim>\<open>replyToTweet\<close> only appends to
  the Notification collection; every appended notification has a sender that differs
  from its recipient; and when the actor is the author of the target tweet, nothing is
  appended.
\<close>

theorem no_self_notification:
  "(\<exists>new. Notifications (fst (likeTweet env me i s)) = Notifications s @ new \<and>
      list_all (\<lambda>n. sender n \<noteq> recipient n) new \<and>
      (case findTweet i s of None \<Rightarrow> True | Some tw \<Rightarrow> author tw = me \<longrightarrow> new = [])) \<and>
   (\<exists>new. Notifications (fst (retweetTweet env me i s)) = Notifications s @ new \<and>
      list_all (\<lambda>n. sender n \<noteq> recipient n) new \<and>
      (case findTweet i s of None \<Rightarrow> True | Some tw \<Rightarrow> author tw = me \<longrightarrow> new = [])) \<and>
   (\<exists>new. Notifications (fst (replyToTweet env me i txt s)) = Notifications s @ new \<and>
      list_all (\<lambda>n. sender n \<noteq> recipient n) new \<and>
      (case findTweet i s of None \<Rightarrow> True | Some tw \<Rightarrow> author tw = me \<longrightarrow> new = []))"
  using likeTweet_notifications retweetTweet_notifications replyToTweet_notifications
  by blast

theorem no_self_notification_witness:
  "findTweet 3 st0 = Some ((newTweet ''hello'' 1)\<lparr>tweet_id := 3\<rparr>) \<and>
   author ((newTweet ''hello'' 1)\<lparr>tweet_id := 3\<rparr>) = 1 \<and>
   Notifications (fst (likeTweet env0 1 3 st0)) = Notifications st0 \<and>
   Notifications (fst (retweetTweet env0 1 3 st0)) = Notifications st0 \<and>
   Notifications (fst (replyToTweet env0 1 3 (Some ''me too'') st0)) = Notifications st0"
proof -
  have f: "findTweet 3 st0 = Some ((newTweet ''hello'' 1)\<lparr>tweet_id := 3\<rparr>)"
    by (simp add: findTweet_def st0_def newTweet_def)
  have a: "author ((newTweet ''hello'' 1)\<lparr>tweet_id := 3\<rparr>) = 1"
    by (simp add: newTweet_def)
  from no_self_notification[of env0 1 3 st0 "Some ''me too''"] f a show ?thesis
    by auto
qed

section \<open>The cascade of a deletion\<close>

lemma findTweet_updateFirst_same:
  "(\<And>t. tweet_id (f t) = tweet_id t) \<Longrightarrow>
     find (\<lambda>t. tweet_id t = k) (updateFirst (\<lambda>t. tweet_id t = k) f xs) =
       map_option f (find (\<lambda>t. tweet_id t = k) xs)"
  by (induction xs) auto

lemma findTweet_updateFirst_other:
  "(\<And>t. tweet_id (f t) = tweet_id t) \<Longrightarrow> j \<noteq> k \<Longrightarrow>
     find (\<lambda>t. tweet_id t = j) (updateFirst (\<lambda>t. tweet_id t = k) f xs) =
       find (\<lambda>t. tweet_id t = j) xs"
  by (induction xs) auto

lemma findTweet_deleteFirst_other:
  "j \<noteq> k \<Longrightarrow>
     find (\<lambda>t. tweet_id t = j) (deleteFirst (\<lambda>t. tweet_id t = k) xs) =
       find (\<lambda>t. tweet_id t = j) xs"
  by (induction xs) auto

lemma deleteTweet_forbidden:
  "findTweet i s = Some tw \<Longrightarrow> author tw \<noteq> me \<Longrightarrow>
     deleteTweet env me i s = (s, Res 403 (Message ''Not authorized to delete this tweet''))"
  by (simp add: deleteTweet_def)

lemma deleteTweet_notifications:
  assumes "deleteTweet env me i s = (s', Res 200 m)"
  shows "Notifications s' = filter (\<lambda>n. tweet n \<noteq> Some i) (Notifications s)"
proof -
  from assms obtain tw where tw: "findTweet i s = Some tw"
    by (auto simp: deleteTweet_def split: option.splits)
  have "tweet_id tw = i" using tw by (rule findTweet_id)
  with assms tw show ?thesis
    by (auto simp: deleteTweet_def Let_def split: if_splits option.splits)
qed

lemma deleteTweet_parent:
  assumes del: "deleteTweet env me i s = (s', Res 200 m)"
    and tw: "findTweet i s = Some tw"
    and rep: "isReply tw" "parentTweet tw = Some par"
    and p: "findTweet par s = Some p"
    and ne: "par \<noteq> i"
  shows "\<exists>p'. findTweet par s' = Some p' \<and> replies p' = removeAll i (replies p)"
proof -
  have id: "tweet_id tw = i" using tw by (rule findTweet_id)
  let ?T1 = "updateFirst (\<lambda>t. tweet_id t = par)
               (\<lambda>t. t\<lparr>replies := removeAll i (replies t)\<rparr>) (Tweets s)"
  have f1: "find (\<lambda>t. tweet_id t = par) ?T1 = Some (p\<lparr>replies := removeAll i (replies p)\<rparr>)"
    using p by (simp add: findTweet_updateFirst_same findTweet_def)
  show ?thesis
  proof (cases "isRetweet tw \<and> originalTweet tw \<noteq> None")
    case False
    with del tw rep id have "Tweets s' = deleteFirst (\<lambda>t. tweet_id t = i) ?T1"
      by (auto simp: deleteTweet_def Let_def split: if_splits option.splits)
    with f1 ne show ?thesis
      by (simp add: findTweet_def findTweet_deleteFirst_other)
  next
    case True
    then obtain orig where orig: "originalTweet tw = Some orig" and rt: "isRetweet tw"
      by auto
    let ?T2 = "updateFirst (\<lambda>t. tweet_id t = orig)
               (\<lambda>t. t\<lparr>retweets := removeAll me (retweets t)\<rparr>) ?T1"
    from del tw rep id orig rt have T: "Tweets s' = deleteFirst (\<lambda>t. tweet_id t = i) ?T2"
      by (auto simp: deleteTweet_def Let_def split: if_splits)
    have "\<exists>p'. find (\<lambda>t. tweet_id t = par) ?T2 = Some p' \<and> replies p' = removeAll i (replies p)"
    proof (cases "orig = par")
      case True
      have "find (\<lambda>t. tweet_id t = par) ?T2 =
          map_option (\<lambda>t. t\<lparr>retweets := removeAll me (retweets t)\<rparr>)
            (find (\<lambda>t. tweet_id t = par) ?T1)"
        unfolding True by (rule findTweet_updateFirst_same) simp
      then show ?thesis
        unfolding f1 by simp
    next
      case False
      have "find (\<lambda>t. tweet_id t = par) ?T2 = find (\<lambda>t. tweet_id t = par) ?T1"
        using False by (intro findTweet_updateFirst_other) auto
      then show ?thesis
        unfolding f1 by simp
    qed
    with T ne show ?thesis
      by (simp add: findTweet_def findTweet_deleteFirst_other)
  qed
qed


text \<open>
  C6. When the actor is not the author of the stored tweet, \<^verbatim>\<open>deleteTweet\<close> answers
  403 and returns the store untouched. When it answers 200, the notifications left are
  those that do not reference the deleted tweet; and when the deleted tweet is a reply
  whose parent (another tweet) is stored, the parent is still stored afterwards and its
  \<^verbatim>\<open>replies\<close> are the former ones without the id of the deleted tweet.
\<close>

theorem deleteTweet_cascade:
  "(findTweet i s = Some tw \<and> author tw \<noteq> me \<longrightarrow>
      deleteTweet env me i s = (s, Res 403 (Message ''Not authorized to delete this tweet''))) \<and>
   (deleteTweet env me i s = (s', Res 200 m) \<longrightarrow>
      Notifications s' = filter (\<lambda>n. tweet n \<noteq> Some i) (Notifications s) \<and>
      list_all (\<lambda>n. tweet n \<noteq> Some i) (Notifications s')) \<and>
   (deleteTweet env me i s = (s', Res 200 m) \<and> findTweet i s = Some tw \<and> isReply tw \<and>
    parentTweet tw = Some par \<and> findTweet par s = Some p \<and> par \<noteq> i \<longrightarrow>
      (\<exists>p'. findTweet par s' = Some p' \<and> replies p' = removeAll i (replies p)))"
  using deleteTweet_forbidden[of i s tw me env] deleteTweet_notifications[of env me i s s' m]
    deleteTweet_parent[of env me i s s' m tw par p]
  by (auto simp: list_all_iff)

theorem deleteTweet_cascade_witness:
  "findTweet 4 stReply =
     Some ((newTweet ''me too'' 2)
        \<lparr>tweet_id := 4, likes := [1], isReply := True, parentTweet := Some 3\<rparr>) \<and>
   deleteTweet env0 1 4 stReply =
     (stReply, Res 403 (Message ''Not authorized to delete this tweet'')) \<and>
   deleteTweet env0 2 4 stReply =
     (st0\<lparr>Notifications := [(notify 1 2 Reply (Some 3))\<lparr>notification_id := 5\<rparr>], nextId := 7\<rparr>,
      Res 200 (Message ''Tweet deleted successfully'')) \<and>
   list_all (\<lambda>n. tweet n \<noteq> Some 4)
     (Notifications
        (st0\<lparr>Notifications := [(notify 1 2 Reply (Some 3))\<lparr>notification_id := 5\<rparr>],
            nextId := 7\<rparr>)) \<and>
   (\<exists>p'. findTweet 3
           (st0\<lparr>Notifications := [(notify 1 2 Reply (Some 3))\<lparr>notification_id := 5\<rparr>],
               nextId := 7\<rparr>) = Some p' \<and>
         replies p' = [])"
proof -
  let ?r = "(newTweet ''me too'' 2)
        \<lparr>tweet_id := 4, likes := [1], isReply := True, parentTweet := Some 3\<rparr>"
  let ?p = "(newTweet ''hello'' 1)\<lparr>tweet_id := 3, replies := [4]\<rparr>"
  let ?s' = "st0\<lparr>Notifications := [(notify 1 2 Reply (Some 3))\<lparr>notification_id := 5\<rparr>],
               nextId := 7\<rparr>"
  have f: "findTweet 4 stReply = Some ?r"
    by (simp add: findTweet_def stReply_def newTweet_def)
  have fp: "findTweet 3 stReply = Some ?p"
    by (simp add: findTweet_def stReply_def newTweet_def)
  have a: "author ?r \<noteq> 1" and r: "isReply ?r" "parentTweet ?r = Some 3"
    by (simp_all add: newTweet_def)
  note c = deleteTweet_cascade[where i = 4 and s = stReply and tw = ?r and env = env0
      and s' = ?s' and m = "Message ''Tweet deleted successfully''" and par = 3 and p = ?p]
  from c[where me = 1] f a have forbidden: "deleteTweet env0 1 4 stReply =
     (stReply, Res 403 (Message ''Not authorized to delete this tweet''))"
    by blast
  have d: "deleteTweet env0 2 4 stReply =
     (?s', Res 200 (Message ''Tweet deleted successfully''))"
    by (simp add: deleteTweet_def findTweet_def stReply_def st0_def newTweet_def notify_def
        env0_def Let_def)
  have ne: "(3::nat) \<noteq> 4"
    by simp
  from c[where me = 2, THEN conjunct2, THEN conjunct2] d f r fp ne
  have "\<exists>p'. findTweet 3 ?s' = Some p' \<and> replies p' = removeAll 4 (replies ?p)"
    by blast
  then have "\<exists>p'. findTweet 3 ?s' = Some p' \<and> replies p' = []"
    by (simp add: newTweet_def)
  moreover from c[where me = 2, THEN conjunct2, THEN conjunct1] d
  have "list_all (\<lambda>n. tweet n \<noteq> Some 4) (Notifications ?s')"
    by blast
  ultimately show ?thesis
    using f forbidden d by blast
qed

section \<open>Appending and replacing documents\<close>









section \<open>Retweet and undo\<close>






section \<open>A failing side effect ends the request\<close>















end
